theory Spec2Isabelle
  imports Complex_Main
begin

section \<open>Python values the interpreter computes with\<close>

text \<open>
  The interpreter of \<^verbatim>\<open>main.py\<close> computes with Python floats (IEEE-754 binary64).
  A float is modelled by the real number it denotes, or one of the three special values.
  The two zeros of IEEE-754 are not distinguished.
\<close>

datatype pyfloat = Finite real | PInf | NInf | NaN

datatype error =
    UnrecognizedSymbol char  \<comment> \<open>\<^verbatim>\<open>Exception("Unrecognized symbol: '%s'" % char)\<close>\<close>
  | MissingParen             \<comment> \<open>\<^verbatim>\<open>Exception("Missing )")\<close>\<close>
  | ParseError               \<comment> \<open>\<^verbatim>\<open>Exception("Error")\<close>\<close>
  | AssertionError           \<comment> \<open>the failed \<^verbatim>\<open>assert\<close> of \<^verbatim>\<open>main\<close>\<close>
  | ZeroDivisionError
  | OverflowError
  | TypeError                \<comment> \<open>arithmetic on \<^verbatim>\<open>None\<close>\<close>
  | ComplexResult            \<comment> \<open>a negative base raised to a fractional power leaves the floats\<close>
  | DepthExhausted           \<comment> \<open>not an exception: the depth given to the parser's model ran out\<close>

subsection \<open>Rounding to binary64\<close>

text \<open>
  Round to nearest, ties to even, with 53 bits of precision, the smallest exponent
  \<open>-1074\<close> of the subnormal numbers, and overflow to an infinity.
\<close>

definition round_half_even :: "real \<Rightarrow> int" where
  "round_half_even x =
     (let f = \<lfloor>x\<rfloor> in
      if x - of_int f < 1 / 2 then f
      else if 1 / 2 < x - of_int f then f + 1
      else if even f then f else f + 1)"

definition double_exponent :: "real \<Rightarrow> int" where
  "double_exponent x = max (\<lfloor>log 2 \<bar>x\<bar>\<rfloor> - 52) (- 1074)"

definition round_double :: "real \<Rightarrow> pyfloat" where
  "round_double x =
     (if x = 0 then Finite 0
      else
        let e = double_exponent x;
            y = of_int (round_half_even (x / 2 powr of_int e)) * 2 powr of_int e
        in if 2 ^ 1024 \<le> \<bar>y\<bar> then (if 0 < x then PInf else NInf) else Finite y)"

subsection \<open>Float arithmetic as Python performs it\<close>

fun float_neg :: "pyfloat \<Rightarrow> pyfloat" where
  "float_neg (Finite x) = Finite (- x)"
| "float_neg PInf = NInf"
| "float_neg NInf = PInf"
| "float_neg NaN = NaN"

fun float_add :: "pyfloat \<Rightarrow> pyfloat \<Rightarrow> pyfloat" where
  "float_add (Finite x) (Finite y) = round_double (x + y)"
| "float_add NaN _ = NaN"
| "float_add _ NaN = NaN"
| "float_add PInf NInf = NaN"
| "float_add NInf PInf = NaN"
| "float_add PInf _ = PInf"
| "float_add _ PInf = PInf"
| "float_add NInf _ = NInf"
| "float_add _ NInf = NInf"

definition float_sub :: "pyfloat \<Rightarrow> pyfloat \<Rightarrow> pyfloat" where
  "float_sub a b = float_add a (float_neg b)"

text \<open>The sign of a float as \<open>-1\<close>, \<open>0\<close> or \<open>1\<close>; a NaN has none.\<close>

fun float_sgn :: "pyfloat \<Rightarrow> real option" where
  "float_sgn (Finite x) = Some (sgn x)"
| "float_sgn PInf = Some 1"
| "float_sgn NInf = Some (- 1)"
| "float_sgn NaN = None"

definition signed_inf :: "real \<Rightarrow> pyfloat" where
  "signed_inf s = (if s = 0 then NaN else if 0 < s then PInf else NInf)"

fun float_mul :: "pyfloat \<Rightarrow> pyfloat \<Rightarrow> pyfloat" where
  "float_mul (Finite x) (Finite y) = round_double (x * y)"
| "float_mul a b =
     (case (float_sgn a, float_sgn b) of
        (Some s, Some t) \<Rightarrow> signed_inf (s * t)
      | _ \<Rightarrow> NaN)"

text \<open>
  \<^verbatim>\<open>a / b\<close> on floats raises \<^verbatim>\<open>ZeroDivisionError\<close> when \<^verbatim>\<open>b == 0.0\<close>; every other
  case follows IEEE-754.
\<close>

fun float_truediv :: "pyfloat \<Rightarrow> pyfloat \<Rightarrow> error + pyfloat" where
  "float_truediv a (Finite y) =
     (if y = 0 then Inl ZeroDivisionError
      else case a of
          Finite x \<Rightarrow> Inr (round_double (x / y))
        | NaN \<Rightarrow> Inr NaN
        | PInf \<Rightarrow> Inr (signed_inf (sgn y))
        | NInf \<Rightarrow> Inr (signed_inf (- sgn y)))"
| "float_truediv a NaN = Inr NaN"
| "float_truediv (Finite x) b = Inr (Finite 0)"
| "float_truediv NaN b = Inr NaN"
| "float_truediv a b = Inr NaN"

text \<open>
  \<^verbatim>\<open>a ** b\<close> on floats, after CPython's \<^verbatim>\<open>float_pow\<close>: the special cases first, then
  the C library's \<^verbatim>\<open>pow\<close>, taken to be correctly rounded; a result that overflows raises
  \<^verbatim>\<open>OverflowError\<close>. A negative base with a fractional exponent gives a complex number
  in Python; the model ends the evaluation there, with \<open>ComplexResult\<close>.
\<close>

definition is_odd_integer :: "real \<Rightarrow> bool" where
  "is_odd_integer y = (y = of_int \<lfloor>y\<rfloor> \<and> odd \<lfloor>y\<rfloor>)"

definition checked_pow :: "real \<Rightarrow> real \<Rightarrow> bool \<Rightarrow> error + pyfloat" where
  "checked_pow x y negate_result =
     (case round_double (x powr y) of
        Finite r \<Rightarrow> Inr (Finite (if negate_result then - r else r))
      | _ \<Rightarrow> Inl OverflowError)"

fun float_pow :: "pyfloat \<Rightarrow> pyfloat \<Rightarrow> error + pyfloat" where
  "float_pow a (Finite y) =
     (if y = 0 then Inr (Finite 1)
      else case a of
          NaN \<Rightarrow> Inr NaN
        | PInf \<Rightarrow> Inr (if 0 < y then PInf else Finite 0)
        | NInf \<Rightarrow> Inr (if 0 < y then (if is_odd_integer y then NInf else PInf) else Finite 0)
        | Finite x \<Rightarrow>
            if x = 0 then (if y < 0 then Inl ZeroDivisionError else Inr (Finite 0))
            else if x < 0 then
              (if y \<noteq> of_int \<lfloor>y\<rfloor> then Inl ComplexResult
               else if x = - 1 then Inr (Finite (if is_odd_integer y then - 1 else 1))
               else checked_pow (- x) y (is_odd_integer y))
            else if x = 1 then Inr (Finite 1)
            else checked_pow x y False)"
| "float_pow NaN b = Inr NaN"
| "float_pow a NaN = (if a = Finite 1 then Inr (Finite 1) else Inr NaN)"
| "float_pow (Finite x) b =
     (if \<bar>x\<bar> = 1 then Inr (Finite 1)
      else if (b = PInf) = (1 < \<bar>x\<bar>) then Inr PInf else Inr (Finite 0))"
| "float_pow a b = (if b = PInf then Inr PInf else Inr (Finite 0))"

section \<open>Tokenizing\<close>

text \<open>
  The input is a \<open>string\<close>, a list of 8-bit characters; the lexer compares each
  character with ASCII characters only.
\<close>

datatype TokenType = NUMBER | PLUS | MINUS | STAR | SLASH | CARET | LPAREN | RPAREN | EOF

text \<open>
  \<^verbatim>\<open>Token(type, value=None)\<close>: the payload is \<open>None\<close> unless the constructor is given
  one.
\<close>

datatype Token = Token (ttype: TokenType) (tvalue: "pyfloat option")

definition digits :: string where
  "digits = ''0123456789''"

definition whitespace :: string where
  "whitespace = [CHR '' '', CHR 0x0A, CHR 0x09]"

text \<open>\<^verbatim>\<open>float(num)\<close> for a run of decimal digits: the nearest double.\<close>

definition digit_value :: "char \<Rightarrow> nat" where
  "digit_value c = of_char c - 48"

definition decimal_value :: "string \<Rightarrow> nat" where
  "decimal_value num = foldl (\<lambda>a c. 10 * a + digit_value c) 0 num"

definition float_of_digits :: "string \<Rightarrow> pyfloat" where
  "float_of_digits num = round_double (real (decimal_value num))"

text \<open>
  The inner loop of \<^verbatim>\<open>generate_tokens\<close>: it appends digits to \<open>num\<close> and stops at the
  first other character, which it has then taken from the input; \<open>char\<close> is the loop
  variable, which keeps the last digit when the input ends inside the run.
\<close>

fun scan_digits :: "string \<Rightarrow> char \<Rightarrow> string \<Rightarrow> string \<times> char \<times> string" where
  "scan_digits num char [] = (num, char, [])"
| "scan_digits num char (c # cs) =
     (if c \<notin> set digits then (num, c, cs) else scan_digits (num @ [c]) c cs)"

lemma scan_digits_length: "scan_digits num char cs = (n, ch, rest) \<Longrightarrow> length rest \<le> length cs"
proof (induction cs arbitrary: num char)
  case Nil
  then show ?case by simp
next
  case (Cons c cs)
  show ?case
  proof (cases "c \<in> set digits")
    case True
    with Cons.prems have "scan_digits (num @ [c]) c cs = (n, ch, rest)" by simp
    from Cons.IH [OF this] show ?thesis by simp
  next
    case False
    with Cons.prems show ?thesis by simp
  qed
qed

text \<open>
  A generator is modelled by what it yields: the tokens in order, and, if the exception
  \<^verbatim>\<open>Unrecognized symbol\<close> ends it, the symbol. The consumer sees the exception when it
  asks for the token after the last one yielded.
\<close>

type_synonym tokens = "Token list \<times> char option"

fun yield :: "Token list \<Rightarrow> tokens \<Rightarrow> tokens" where
  "yield ts (us, e) = (ts @ us, e)"

text \<open>
  The body of the outer loop after the branch for numbers: \<open>char\<close> is the character in
  hand, \<open>num\<close> the run of digits if this iteration read one, and \<open>more\<close> what the
  generator yields from the next iteration on.
\<close>

definition symbol :: "char \<Rightarrow> string option \<Rightarrow> tokens \<Rightarrow> tokens" where
  "symbol char num more =
     (if char \<in> set whitespace then more
      else if char = CHR ''+'' then yield [Token PLUS None] more
      else if char = CHR ''-'' then yield [Token MINUS None] more
      else if char = CHR ''*'' then yield [Token STAR None] more
      else if char = CHR ''/'' then yield [Token SLASH None] more
      else if char = CHR ''^'' then yield [Token CARET None] more
      else if num = None then ([], Some char)
      else more)"

function generate_tokens :: "string \<Rightarrow> tokens" where
  "generate_tokens [] = ([], None)"
| "generate_tokens (c # cs) =
     (if c \<in> set digits then
        (case scan_digits [c] c cs of
           (num, char, rest) \<Rightarrow>
             yield [Token NUMBER (Some (float_of_digits num))]
               (symbol char (Some num) (generate_tokens rest)))
      else symbol c None (generate_tokens cs))"
  by pat_completeness auto
termination
  by (relation "measure length") (auto dest!: scan_digits_length [OF sym])

text \<open>
  \<^verbatim>\<open>next(tokens, Token(TokenType.EOF))\<close>: the next token of the generator, or the
  default once it is exhausted; the generator's exception passes through.
\<close>

fun next_token :: "tokens \<Rightarrow> error + Token \<times> tokens" where
  "next_token (t # ts, e) = Inr (t, (ts, e))"
| "next_token ([], Some char) = Inl (UnrecognizedSymbol char)"
| "next_token ([], None) = Inr (Token EOF None, ([], None))"

section \<open>Parsing\<close>

text \<open>
  \<^verbatim>\<open>NumberNode(num.value)\<close> stores whatever payload the token carries, so the value of
  a number node is optional, as the payload is.
\<close>

datatype Node =
    NumberNode "pyfloat option"
  | BinaryOpNode Node Token Node
  | UnaryOpNode Token Node

text \<open>
  The routines of the recursive descent call each other, so they are defined together:
  a \<open>call\<close> names a routine (or one of the three \<^verbatim>\<open>while\<close> loops, entered at its
  test) with its arguments, and \<open>run d c\<close> performs the call \<open>c\<close>. A routine returns its
  lookahead token, the tree and the tokens left. The number \<open>d\<close> bounds the depth of the
  calls: every call passes one less, and at depth \<open>0\<close> the result is \<open>DepthExhausted\<close>.
  The bound is a device of the definition; the recursion limit of the Python interpreter
  is not modelled.
\<close>

datatype call =
    Expr tokens
  | ExprLoop Token Node tokens
  | Term tokens
  | TermLoop Token Node tokens
  | Factor tokens
  | Power tokens Token
  | PowerLoop Token Node tokens
  | Atom tokens Token

type_synonym parsed = "error + Token \<times> Node \<times> tokens"

primrec run :: "nat \<Rightarrow> call \<Rightarrow> parsed" where
  "run 0 c = Inl DepthExhausted"
| "run (Suc d) c =
     (case c of
        Expr tokens \<Rightarrow>
          (case run d (Term tokens) of
             Inl e \<Rightarrow> Inl e
           | Inr (token, left, tokens') \<Rightarrow> run d (ExprLoop token left tokens'))
      | ExprLoop token left tokens \<Rightarrow>
          if ttype token \<in> {PLUS, MINUS} then
            (case run d (Term tokens) of
               Inl e \<Rightarrow> Inl e
             | Inr (token', right, tokens') \<Rightarrow>
                 run d (ExprLoop token' (BinaryOpNode left token right) tokens'))
          else Inr (token, left, tokens)
      | Term tokens \<Rightarrow>
          (case run d (Factor tokens) of
             Inl e \<Rightarrow> Inl e
           | Inr (token, left, tokens') \<Rightarrow> run d (TermLoop token left tokens'))
      | TermLoop token left tokens \<Rightarrow>
          if ttype token \<in> {STAR, SLASH} then
            (case run d (Factor tokens) of
               Inl e \<Rightarrow> Inl e
             | Inr (token', right, tokens') \<Rightarrow>
                 run d (TermLoop token' (BinaryOpNode left token right) tokens'))
          else Inr (token, left, tokens)
      | Factor tokens \<Rightarrow>
          (case next_token tokens of
             Inl e \<Rightarrow> Inl e
           | Inr (token, tokens') \<Rightarrow>
               if ttype token \<in> {PLUS, MINUS} then
                 (case run d (Factor tokens') of
                    Inl e \<Rightarrow> Inl e
                  | Inr (token', right, tokens'') \<Rightarrow>
                      Inr (token', UnaryOpNode token right, tokens''))
               else run d (Power tokens' token))
      | Power tokens token \<Rightarrow>
          (case run d (Atom tokens token) of
             Inl e \<Rightarrow> Inl e
           | Inr (token', left, tokens') \<Rightarrow> run d (PowerLoop token' left tokens'))
      | PowerLoop token left tokens \<Rightarrow>
          if ttype token = CARET then
            (case run d (Factor tokens) of
               Inl e \<Rightarrow> Inl e
             | Inr (token', right, tokens') \<Rightarrow>
                 run d (PowerLoop token' (BinaryOpNode left token right) tokens'))
          else Inr (token, left, tokens)
      | Atom tokens token \<Rightarrow>
          if ttype token = NUMBER then
            (case next_token tokens of
               Inl e \<Rightarrow> Inl e
             | Inr (token', tokens') \<Rightarrow> Inr (token', NumberNode (tvalue token), tokens'))
          else if ttype token = LPAREN then
            (case run d (Expr tokens) of
               Inl e \<Rightarrow> Inl e
             | Inr (token', result, tokens') \<Rightarrow>
                 if ttype token' \<noteq> RPAREN then Inl MissingParen
                 else
                   (case next_token tokens' of
                      Inl e \<Rightarrow> Inl e
                    | Inr (token'', tokens'') \<Rightarrow> Inr (token'', result, tokens'')))
          else Inl ParseError)"

text \<open>
  The routines under their own names (\<open>term'\<close> and \<open>power'\<close> for \<^verbatim>\<open>term\<close> and
  \<^verbatim>\<open>power\<close>); their equations, as the source has them, are \<open>expr_Suc\<close> to
  \<open>atom_Suc\<close> below.
\<close>

definition expr :: "nat \<Rightarrow> tokens \<Rightarrow> parsed" where
  "expr d tokens = run d (Expr tokens)"

definition expr_loop :: "nat \<Rightarrow> Token \<Rightarrow> Node \<Rightarrow> tokens \<Rightarrow> parsed" where
  "expr_loop d token left tokens = run d (ExprLoop token left tokens)"

definition term' :: "nat \<Rightarrow> tokens \<Rightarrow> parsed" where
  "term' d tokens = run d (Term tokens)"

definition term_loop :: "nat \<Rightarrow> Token \<Rightarrow> Node \<Rightarrow> tokens \<Rightarrow> parsed" where
  "term_loop d token left tokens = run d (TermLoop token left tokens)"

definition factor :: "nat \<Rightarrow> tokens \<Rightarrow> parsed" where
  "factor d tokens = run d (Factor tokens)"

definition power' :: "nat \<Rightarrow> tokens \<Rightarrow> Token \<Rightarrow> parsed" where
  "power' d tokens token = run d (Power tokens token)"

definition power_loop :: "nat \<Rightarrow> Token \<Rightarrow> Node \<Rightarrow> tokens \<Rightarrow> parsed" where
  "power_loop d token left tokens = run d (PowerLoop token left tokens)"

definition atom :: "nat \<Rightarrow> tokens \<Rightarrow> Token \<Rightarrow> parsed" where
  "atom d tokens token = run d (Atom tokens token)"

section \<open>Interpreting\<close>

text \<open>
  A value of the interpreter is a float or \<^verbatim>\<open>None\<close> (\<open>None\<close> here): a visitor whose
  node has an operator it does not know falls off its end and returns \<^verbatim>\<open>None\<close>, and
  arithmetic on \<^verbatim>\<open>None\<close> raises \<^verbatim>\<open>TypeError\<close>.
\<close>

type_synonym pyvalue = "pyfloat option"

fun py_neg :: "pyvalue \<Rightarrow> error + pyvalue" where
  "py_neg (Some a) = Inr (Some (float_neg a))"
| "py_neg None = Inl TypeError"

fun py_add :: "pyvalue \<Rightarrow> pyvalue \<Rightarrow> error + pyvalue" where
  "py_add (Some a) (Some b) = Inr (Some (float_add a b))"
| "py_add _ _ = Inl TypeError"

fun py_sub :: "pyvalue \<Rightarrow> pyvalue \<Rightarrow> error + pyvalue" where
  "py_sub (Some a) (Some b) = Inr (Some (float_sub a b))"
| "py_sub _ _ = Inl TypeError"

fun py_mul :: "pyvalue \<Rightarrow> pyvalue \<Rightarrow> error + pyvalue" where
  "py_mul (Some a) (Some b) = Inr (Some (float_mul a b))"
| "py_mul _ _ = Inl TypeError"

fun py_truediv :: "pyvalue \<Rightarrow> pyvalue \<Rightarrow> error + pyvalue" where
  "py_truediv (Some a) (Some b) = map_sum id Some (float_truediv a b)"
| "py_truediv _ _ = Inl TypeError"

fun py_pow :: "pyvalue \<Rightarrow> pyvalue \<Rightarrow> error + pyvalue" where
  "py_pow (Some a) (Some b) = map_sum id Some (float_pow a b)"
| "py_pow _ _ = Inl TypeError"

text \<open>
  \<^verbatim>\<open>visit(node.left) <op> visit(node.right)\<close>: the left operand is evaluated first, then
  the right one, then the operator is applied; the first exception ends the evaluation.
\<close>

fun binary :: "(pyvalue \<Rightarrow> pyvalue \<Rightarrow> error + pyvalue) \<Rightarrow>
    error + pyvalue \<Rightarrow> error + pyvalue \<Rightarrow> error + pyvalue" where
  "binary f (Inl e) _ = Inl e"
| "binary f (Inr a) (Inl e) = Inl e"
| "binary f (Inr a) (Inr b) = f a b"

text \<open>
  \<^verbatim>\<open>visit\<close> finds the visitor by the node's class name; the three classes of nodes have
  one each, so the lookup never fails. The three visitors are the three equations.
\<close>

fun visit :: "Node \<Rightarrow> error + pyvalue" where
  "visit (NumberNode v) = Inr v"
| "visit (BinaryOpNode left op right) =
     (if ttype op = PLUS then binary py_add (visit left) (visit right)
      else if ttype op = MINUS then binary py_sub (visit left) (visit right)
      else if ttype op = STAR then binary py_mul (visit left) (visit right)
      else if ttype op = SLASH then binary py_truediv (visit left) (visit right)
      else if ttype op = CARET then binary py_pow (visit left) (visit right)
      else Inr None)"
| "visit (UnaryOpNode op node) =
     (if ttype op = PLUS then visit node
      else if ttype op = MINUS then
        (case visit node of Inl e \<Rightarrow> Inl e | Inr v \<Rightarrow> py_neg v)
      else Inr None)"

section \<open>The program\<close>

text \<open>
  What \<^verbatim>\<open>main\<close> does to its streams, in order: a line printed, the value printed (by
  \<^verbatim>\<open>print(value)\<close>, in Python's notation for it), standard input read to its end.
\<close>

datatype event = PrintLine string | PrintValue pyvalue | ReadStdin

text \<open>
  The parser's routines call each other to a depth of at most five for each token and
  five more, so this depth is never exhausted (\<open>parse_depth_enough\<close> and
  \<open>main_never_exhausts_depth\<close> below).
\<close>

definition parse_depth :: "tokens \<Rightarrow> nat" where
  "parse_depth tokens = 5 * length (fst tokens) + 5"

text \<open>
  \<^verbatim>\<open>main(stdin)\<close> on the contents of standard input: the events, and how it ends
  (\<open>Inr ()\<close> is a normal return, \<open>Inl e\<close> the exception that ends the program).
\<close>

definition main :: "string \<Rightarrow> event list \<times> (error + unit)" where
  "main stdin =
     (let out = [PrintLine ''Press <Ctrl-D> to Terminate input'', ReadStdin];
          text = stdin
      in if text = [] then (out, Inr ())
         else
           let tokens = generate_tokens text in
           case expr (parse_depth tokens) tokens of
             Inl e \<Rightarrow> (out, Inl e)
           | Inr (last_token, node, _) \<Rightarrow>
               if ttype last_token \<noteq> EOF then (out, Inl AssertionError)
               else
                 (case visit node of
                    Inl e \<Rightarrow> (out, Inl e)
                  | Inr v \<Rightarrow> (out @ [PrintValue v], Inr ())))"

text \<open>The lines \<^verbatim>\<open>main\<close> prints, in order.\<close>

definition printed :: "event list \<Rightarrow> event list" where
  "printed events = filter (\<lambda>e. e \<noteq> ReadStdin) events"

section \<open>Predicates of the properties\<close>

text \<open>
  A well-formed tree: the operator of a binary node is one of the five operators, and the
  operator of a unary node is a sign.
\<close>

fun valid_node :: "Node \<Rightarrow> bool" where
  "valid_node (NumberNode v) = True"
| "valid_node (BinaryOpNode left op right) =
     (ttype op \<in> {PLUS, MINUS, STAR, SLASH, CARET} \<and> valid_node left \<and> valid_node right)"
| "valid_node (UnaryOpNode op node) = (ttype op \<in> {PLUS, MINUS} \<and> valid_node node)"

text \<open>A well-formed token carries a payload exactly when it is a number.\<close>

definition valid_token :: "Token \<Rightarrow> bool" where
  "valid_token t = ((tvalue t \<noteq> None) = (ttype t = NUMBER))"

text \<open>The tree a loop of the parser has built so far is well formed.\<close>

fun call_left_valid :: "call \<Rightarrow> bool" where
  "call_left_valid (ExprLoop token left tokens) = valid_node left"
| "call_left_valid (TermLoop token left tokens) = valid_node left"
| "call_left_valid (PowerLoop token left tokens) = valid_node left"
| "call_left_valid _ = True"

text \<open>The five tokens the lexer yields for the operators.\<close>

definition operator_tokens :: "Token set" where
  "operator_tokens =
     {Token PLUS None, Token MINUS None, Token STAR None, Token SLASH None, Token CARET None}"

text \<open>
  A depth that is enough for a call, from the number of tokens not yet taken from the
  generator: each token costs at most five nested calls.
\<close>

fun need :: "call \<Rightarrow> nat" where
  "need (Expr tokens) = 5 * length (fst tokens) + 5"
| "need (ExprLoop token left tokens) = 5 * length (fst tokens) + 5"
| "need (Term tokens) = 5 * length (fst tokens) + 4"
| "need (TermLoop token left tokens) = 5 * length (fst tokens) + 4"
| "need (Factor tokens) = 5 * length (fst tokens) + 3"
| "need (Power tokens token) =
     (if ttype token \<in> {NUMBER, LPAREN} then 5 * length (fst tokens) + 7 else 2)"
| "need (PowerLoop token left tokens) = 5 * length (fst tokens) + 4"
| "need (Atom tokens token) = (if ttype token = LPAREN then 5 * length (fst tokens) + 6 else 1)"

text \<open>
  What a successful call has taken from the generator: \<open>expr\<close>, \<open>term'\<close> and \<open>factor\<close>
  take at least one token; \<open>power'\<close> and \<open>atom\<close> succeed on a number or a left
  parenthesis only.
\<close>

fun consumes :: "call \<Rightarrow> tokens \<Rightarrow> bool" where
  "consumes (Expr tokens) rest = (length (fst rest) < length (fst tokens))"
| "consumes (Term tokens) rest = (length (fst rest) < length (fst tokens))"
| "consumes (Factor tokens) rest = (length (fst rest) < length (fst tokens))"
| "consumes (ExprLoop token left tokens) rest = (length (fst rest) \<le> length (fst tokens))"
| "consumes (TermLoop token left tokens) rest = (length (fst rest) \<le> length (fst tokens))"
| "consumes (PowerLoop token left tokens) rest = (length (fst rest) \<le> length (fst tokens))"
| "consumes (Power tokens token) rest =
     (length (fst rest) \<le> length (fst tokens) \<and> ttype token \<in> {NUMBER, LPAREN})"
| "consumes (Atom tokens token) rest =
     (length (fst rest) \<le> length (fst tokens) \<and> ttype token \<in> {NUMBER, LPAREN})"

text \<open>
  A lookahead token and the tokens behind it, against the set \<open>S\<close> of the tokens of the
  input: the lookahead is one of them, or it is the end-of-input token and nothing is left.
\<close>

definition ahead :: "Token set \<Rightarrow> Token \<Rightarrow> tokens \<Rightarrow> bool" where
  "ahead S token rest =
     (set (fst rest) \<subseteq> S \<and> (token \<in> S \<or> (token = Token EOF None \<and> rest = ([], None))))"

fun call_ahead :: "Token set \<Rightarrow> call \<Rightarrow> bool" where
  "call_ahead S (Expr tokens) = (set (fst tokens) \<subseteq> S)"
| "call_ahead S (Term tokens) = (set (fst tokens) \<subseteq> S)"
| "call_ahead S (Factor tokens) = (set (fst tokens) \<subseteq> S)"
| "call_ahead S (ExprLoop token left tokens) = ahead S token tokens"
| "call_ahead S (TermLoop token left tokens) = ahead S token tokens"
| "call_ahead S (PowerLoop token left tokens) = ahead S token tokens"
| "call_ahead S (Power tokens token) = ahead S token tokens"
| "call_ahead S (Atom tokens token) = ahead S token tokens"

text \<open>The exceptions that the evaluation of a tree can raise.\<close>

definition evaluation_errors :: "error set" where
  "evaluation_errors = {ZeroDivisionError, OverflowError, TypeError, ComplexResult}"

section \<open>Doubles that arithmetic leaves exact\<close>

text \<open>
  A real number \<open>m * 2 ^ e\<close> with a mantissa of at most 53 bits and an exponent in the
  range of binary64 is a double, and rounding returns it.
\<close>

lemma round_half_even_of_int: "round_half_even (of_int j) = j"
  by (simp add: round_half_even_def)

lemma round_double_exact:
  assumes x: "x = of_int m * 2 powr of_int e"
    and m: "\<bar>m\<bar> < 2 ^ 53" and lo: "- 1074 \<le> e" and hi: "e \<le> 971"
  shows "round_double x = Finite x"
proof (cases "m = 0")
  case True
  with x show ?thesis by (simp add: round_double_def)
next
  case False
  define e' where "e' = double_exponent x"
  have x0: "x \<noteq> 0" using False x by simp
  have absx: "\<bar>x\<bar> = of_int \<bar>m\<bar> * 2 powr of_int e"
    using x by (simp add: abs_mult)
  have mpos: "0 < (of_int \<bar>m\<bar> :: real)" using False by simp
  have "log 2 \<bar>x\<bar> = log 2 (of_int \<bar>m\<bar>) + of_int e"
    unfolding absx using mpos by (simp add: log_mult)
  moreover have "log 2 (of_int \<bar>m\<bar>) < 53"
  proof -
    have "(of_int \<bar>m\<bar> :: real) < 2 ^ 53" using m by (metis of_int_less_numeral_power_cancel_iff)
    then have "(of_int \<bar>m\<bar> :: real) < 2 powr 53" by simp
    then show ?thesis using mpos by (subst log_less_iff) simp_all
  qed
  ultimately have "log 2 \<bar>x\<bar> < of_int (e + 53)" by simp
  then have "\<lfloor>log 2 \<bar>x\<bar>\<rfloor> < e + 53" by (simp add: floor_less_iff)
  then have e'le: "e' \<le> e" using lo by (simp add: e'_def double_exponent_def)
  define n where "n = nat (e - e')"
  have en: "e = e' + int n" using e'le by (simp add: n_def)
  have p: "(2::real) powr of_int e = 2 ^ n * 2 powr of_int e'"
    by (simp add: en powr_add powr_realpow)
  have q: "x / 2 powr of_int e' = of_int (m * 2 ^ n)"
    by (simp add: x p)
  have y: "of_int (round_half_even (x / 2 powr of_int e')) * 2 powr of_int e' = x"
    unfolding q round_half_even_of_int by (simp add: x p)
  have "\<bar>x\<bar> < 2 ^ 53 * 2 powr of_int 971"
  proof -
    have "(of_int \<bar>m\<bar> :: real) < 2 ^ 53" using m by (metis of_int_less_numeral_power_cancel_iff)
    moreover have "(2::real) powr of_int e \<le> 2 powr of_int 971"
      using hi by (intro powr_mono) simp_all
    ultimately have "real_of_int \<bar>m\<bar> * 2 powr of_int e < 2 ^ 53 * 2 powr of_int 971"
      by (intro mult_less_le_imp_less) simp_all
    then show ?thesis by (simp add: absx)
  qed
  also have "\<dots> = 2 ^ 1024"
  proof -
    have "(2::real) powr of_int 971 = 2 ^ 971" by simp
    then show ?thesis by simp
  qed
  finally have small: "\<not> 2 ^ 1024 \<le> \<bar>x\<bar>" by simp
  show ?thesis
    using x0 small y unfolding round_double_def Let_def e'_def by simp
qed

lemma round_double_of_int: "\<bar>k\<bar> < 2 ^ 53 \<Longrightarrow> round_double (of_int k) = Finite (of_int k)"
  using round_double_exact [of "of_int k" k 0] by simp

lemma round_double_numeral [simp]:
  "numeral n < (2::int) ^ 53 \<Longrightarrow> round_double (numeral n) = Finite (numeral n)"
  using round_double_of_int [of "numeral n"] by simp

lemma round_double_0 [simp]: "round_double 0 = Finite 0"
  by (simp add: round_double_def)

lemma round_double_1 [simp]: "round_double 1 = Finite 1"
  using round_double_of_int [of 1] by simp

text \<open>The integer \<open>2 ^ 53 + 1\<close> is no double: it lies halfway between two, and the tie goes to the even one.\<close>

lemma floor_log2_53: "\<lfloor>log 2 (9007199254740993::real)\<rfloor> = 53"
  by (subst floor_log_eq_powr_iff) simp_all

lemma round_double_above_2_53: "round_double 9007199254740993 = Finite 9007199254740992"
  by (simp add: round_double_def double_exponent_def floor_log2_53 round_half_even_def)

section \<open>The routines of the parser, as the source writes them\<close>

lemmas routine_defs = expr_def expr_loop_def term'_def term_loop_def factor_def power'_def
  power_loop_def atom_def

lemma parser_0:
  "expr 0 tokens = Inl DepthExhausted"
  "expr_loop 0 token left tokens = Inl DepthExhausted"
  "term' 0 tokens = Inl DepthExhausted"
  "term_loop 0 token left tokens = Inl DepthExhausted"
  "factor 0 tokens = Inl DepthExhausted"
  "power' 0 tokens token = Inl DepthExhausted"
  "power_loop 0 token left tokens = Inl DepthExhausted"
  "atom 0 tokens token = Inl DepthExhausted"
  unfolding routine_defs by simp_all

lemma expr_Suc:
  "expr (Suc d) tokens =
     (case term' d tokens of
        Inl e \<Rightarrow> Inl e
      | Inr (token, left, tokens') \<Rightarrow> expr_loop d token left tokens')"
  unfolding routine_defs by simp

lemma expr_loop_Suc:
  "expr_loop (Suc d) token left tokens =
     (if ttype token \<in> {PLUS, MINUS} then
        (case term' d tokens of
           Inl e \<Rightarrow> Inl e
         | Inr (token', right, tokens') \<Rightarrow>
             expr_loop d token' (BinaryOpNode left token right) tokens')
      else Inr (token, left, tokens))"
  unfolding routine_defs by simp

lemma term_Suc:
  "term' (Suc d) tokens =
     (case factor d tokens of
        Inl e \<Rightarrow> Inl e
      | Inr (token, left, tokens') \<Rightarrow> term_loop d token left tokens')"
  unfolding routine_defs by simp

lemma term_loop_Suc:
  "term_loop (Suc d) token left tokens =
     (if ttype token \<in> {STAR, SLASH} then
        (case factor d tokens of
           Inl e \<Rightarrow> Inl e
         | Inr (token', right, tokens') \<Rightarrow>
             term_loop d token' (BinaryOpNode left token right) tokens')
      else Inr (token, left, tokens))"
  unfolding routine_defs by simp

lemma factor_Suc:
  "factor (Suc d) tokens =
     (case next_token tokens of
        Inl e \<Rightarrow> Inl e
      | Inr (token, tokens') \<Rightarrow>
          if ttype token \<in> {PLUS, MINUS} then
            (case factor d tokens' of
               Inl e \<Rightarrow> Inl e
             | Inr (token', right, tokens'') \<Rightarrow> Inr (token', UnaryOpNode token right, tokens''))
          else power' d tokens' token)"
  unfolding routine_defs by simp

lemma power_Suc:
  "power' (Suc d) tokens token =
     (case atom d tokens token of
        Inl e \<Rightarrow> Inl e
      | Inr (token', left, tokens') \<Rightarrow> power_loop d token' left tokens')"
  unfolding routine_defs by simp

lemma power_loop_Suc:
  "power_loop (Suc d) token left tokens =
     (if ttype token = CARET then
        (case factor d tokens of
           Inl e \<Rightarrow> Inl e
         | Inr (token', right, tokens') \<Rightarrow>
             power_loop d token' (BinaryOpNode left token right) tokens')
      else Inr (token, left, tokens))"
  unfolding routine_defs by simp

lemma atom_Suc:
  "atom (Suc d) tokens token =
     (if ttype token = NUMBER then
        (case next_token tokens of
           Inl e \<Rightarrow> Inl e
         | Inr (token', tokens') \<Rightarrow> Inr (token', NumberNode (tvalue token), tokens'))
      else if ttype token = LPAREN then
        (case expr d tokens of
           Inl e \<Rightarrow> Inl e
         | Inr (token', result, tokens') \<Rightarrow>
             if ttype token' \<noteq> RPAREN then Inl MissingParen
             else
               (case next_token tokens' of
                  Inl e \<Rightarrow> Inl e
                | Inr (token'', tokens'') \<Rightarrow> Inr (token'', result, tokens'')))
      else Inl ParseError)"
  unfolding routine_defs by simp

lemmas parser_Suc = expr_Suc expr_loop_Suc term_Suc term_loop_Suc factor_Suc power_Suc
  power_loop_Suc atom_Suc

text \<open>Rules that evaluate the program on a concrete input.\<close>

lemmas lex_simps = digits_def whitespace_def symbol_def float_of_digits_def decimal_value_def
  digit_value_def

lemmas float_simps = checked_pow_def float_sub_def signed_inf_def is_odd_integer_def
lemmas eval_simps = parse_depth_def lex_simps eval_nat_numeral parser_Suc parser_0 float_simps


section \<open>What the lexer yields\<close>

text \<open>Every token of the lexer is a number with a payload or one of the five operators.\<close>

lemma symbol_tokens:
  "t \<in> set (fst (symbol char num more)) \<Longrightarrow> t \<in> set (fst more) \<or> t \<in> operator_tokens"
  by (cases more) (auto simp: symbol_def operator_tokens_def split: if_splits)

lemma generate_tokens_shape:
  "t \<in> set (fst (generate_tokens input)) \<Longrightarrow>
     (\<exists>v. t = Token NUMBER (Some v)) \<or> t \<in> operator_tokens"
proof (induction input rule: generate_tokens.induct)
  case 1
  then show ?case by simp
next
  case (2 c cs)
  show ?case
  proof (cases "c \<in> set digits")
    case True
    obtain num char rest where sd: "scan_digits [c] c cs = (num, char, rest)"
      by (cases "scan_digits [c] c cs")
    obtain ts e where sy: "symbol char (Some num) (generate_tokens rest) = (ts, e)"
      by (cases "symbol char (Some num) (generate_tokens rest)")
    from "2.prems" True sd sy
    have "t = Token NUMBER (Some (float_of_digits num)) \<or> t \<in> set ts" by auto
    then show ?thesis
    proof
      assume "t = Token NUMBER (Some (float_of_digits num))"
      then show ?thesis by blast
    next
      assume "t \<in> set ts"
      then have "t \<in> set (fst (symbol char (Some num) (generate_tokens rest)))"
        by (simp add: sy)
      then have "t \<in> set (fst (generate_tokens rest)) \<or> t \<in> operator_tokens"
        by (rule symbol_tokens)
      then show ?thesis using "2.IH"(1) [OF True sd [symmetric] refl] by blast
    qed
  next
    case False
    with "2.prems" have "t \<in> set (fst (symbol c None (generate_tokens cs)))" by simp
    then have "t \<in> set (fst (generate_tokens cs)) \<or> t \<in> operator_tokens"
      by (rule symbol_tokens)
    then show ?thesis using "2.IH"(2) [OF False] by blast
  qed
qed

lemma generate_tokens_not_EOF:
  "t \<in> set (fst (generate_tokens input)) \<Longrightarrow> ttype t \<notin> {EOF, LPAREN, RPAREN}"
  by (drule generate_tokens_shape) (auto simp: operator_tokens_def)

text \<open>On digits only, the inner loop reads to the end and the input is one number.\<close>

lemma scan_digits_all:
  "set cs \<subseteq> set digits \<Longrightarrow> scan_digits num ch cs = (num @ cs, last (ch # cs), [])"
  by (induction cs arbitrary: num ch) auto

lemma symbol_digit: "char \<in> set digits \<Longrightarrow> symbol char (Some n) more = more"
  by (auto simp: symbol_def digits_def whitespace_def)

lemma generate_tokens_digits:
  assumes "input \<noteq> []" and "set input \<subseteq> set digits"
  shows "generate_tokens input = ([Token NUMBER (Some (float_of_digits input))], None)"
proof -
  from assms(1) obtain c cs where input: "input = c # cs" by (cases input) auto
  with assms(2) have c: "c \<in> set digits" and cs: "set cs \<subseteq> set digits" by auto
  have "last (c # cs) \<in> set (c # cs)" by (rule last_in_set) simp
  with c cs have l: "last (c # cs) \<in> set digits" by auto
  show ?thesis
    unfolding input using c l by (simp add: scan_digits_all [OF cs] symbol_digit del: last.simps)
qed

section \<open>What the parser returns\<close>

subsection \<open>Well-formed trees\<close>

lemma run_valid_node:
  "run d c = Inr (tok, node, rest) \<Longrightarrow> call_left_valid c \<Longrightarrow> valid_node node"
proof (induction d arbitrary: c tok node rest)
  case 0
  then show ?case by simp
next
  case (Suc d)
  note IH = Suc.IH
  show ?case
  proof (cases c)
    case (Expr tokens)
    with Suc.prems show ?thesis
      by (auto split: sum.splits prod.splits if_splits dest!: IH)
  next
    case (ExprLoop token left tokens)
    with Suc.prems show ?thesis
      by (auto split: sum.splits prod.splits if_splits dest!: IH)
  next
    case (Term tokens)
    with Suc.prems show ?thesis
      by (auto split: sum.splits prod.splits if_splits dest!: IH)
  next
    case (TermLoop token left tokens)
    with Suc.prems show ?thesis
      by (auto split: sum.splits prod.splits if_splits dest!: IH)
  next
    case (Factor tokens)
    with Suc.prems show ?thesis
      by (auto split: sum.splits prod.splits if_splits dest!: IH)
  next
    case (Power tokens token)
    with Suc.prems show ?thesis
      by (auto split: sum.splits prod.splits if_splits dest!: IH)
  next
    case (PowerLoop token left tokens)
    with Suc.prems show ?thesis
      by (auto split: sum.splits prod.splits if_splits dest!: IH)
  next
    case (Atom tokens token)
    with Suc.prems show ?thesis
      by (auto split: sum.splits prod.splits if_splits dest!: IH)
  qed
qed

subsection \<open>The depth is never exhausted\<close>

lemma next_token_length:
  "next_token tokens = Inr (token, rest) \<Longrightarrow>
     (length (fst rest) < length (fst tokens) \<or> (token = Token EOF None \<and> rest = tokens \<and> fst tokens = []))"
  by (induction tokens rule: next_token.induct) auto

lemma next_token_raises:
  "next_token tokens = Inl e \<Longrightarrow> (\<exists>char. e = UnrecognizedSymbol char)"
  by (induction tokens rule: next_token.induct) auto

lemma run_consumes: "run d c = Inr (tok, node, rest) \<Longrightarrow> consumes c rest"
proof (induction d arbitrary: c tok node rest)
  case 0
  then show ?case by simp
next
  case (Suc d)
  note IH = Suc.IH
  show ?case
  proof (cases c)
    case (Expr tokens)
    with Suc.prems show ?thesis
      by (auto split: sum.splits prod.splits if_splits dest!: IH)
  next
    case (ExprLoop token left tokens)
    with Suc.prems show ?thesis
      by (auto split: sum.splits prod.splits if_splits dest!: IH)
  next
    case (Term tokens)
    with Suc.prems show ?thesis
      by (auto split: sum.splits prod.splits if_splits dest!: IH)
  next
    case (TermLoop token left tokens)
    with Suc.prems show ?thesis
      by (auto split: sum.splits prod.splits if_splits dest!: IH)
  next
    case (Factor tokens)
    with Suc.prems show ?thesis
      by (auto split: sum.splits prod.splits if_splits dest!: IH next_token_length)
  next
    case (Power tokens token)
    with Suc.prems show ?thesis
      by (auto split: sum.splits prod.splits if_splits dest!: IH)
  next
    case (PowerLoop token left tokens)
    with Suc.prems show ?thesis
      by (auto split: sum.splits prod.splits if_splits dest!: IH)
  next
    case (Atom tokens token)
    with Suc.prems show ?thesis
      by (auto split: sum.splits prod.splits if_splits dest!: IH next_token_length)
  qed
qed

lemma depth_exhausted: "run d c = Inl DepthExhausted \<Longrightarrow> d < need c"
proof (induction d arbitrary: c)
  case 0
  then show ?case by (cases c) auto
next
  case (Suc d)
  note IH = Suc.IH
  show ?case
  proof (cases c)
    case (Expr tokens)
    with Suc.prems show ?thesis
      by (auto split: sum.splits prod.splits if_splits dest!: IH run_consumes)
  next
    case (ExprLoop token left tokens)
    with Suc.prems show ?thesis
      by (auto split: sum.splits prod.splits if_splits dest!: IH run_consumes)
  next
    case (Term tokens)
    with Suc.prems show ?thesis
      by (auto split: sum.splits prod.splits if_splits dest!: IH run_consumes)
  next
    case (TermLoop token left tokens)
    with Suc.prems show ?thesis
      by (auto split: sum.splits prod.splits if_splits dest!: IH run_consumes)
  next
    case (Factor tokens)
    with Suc.prems show ?thesis
      by (auto split: sum.splits prod.splits if_splits dest!: IH run_consumes next_token_length next_token_raises)
  next
    case (Power tokens token)
    with Suc.prems show ?thesis
      by (auto split: sum.splits prod.splits if_splits dest!: IH run_consumes)
  next
    case (PowerLoop token left tokens)
    with Suc.prems show ?thesis
      by (auto split: sum.splits prod.splits if_splits dest!: IH run_consumes)
  next
    case (Atom tokens token)
    with Suc.prems show ?thesis
      by (auto split: sum.splits prod.splits if_splits dest!: IH run_consumes next_token_length next_token_raises)
  qed
qed

lemma parse_depth_enough: "expr (parse_depth tokens) tokens \<noteq> Inl DepthExhausted"
  using depth_exhausted [of "parse_depth tokens" "Expr tokens"]
  by (auto simp: expr_def parse_depth_def)

subsection \<open>The lookahead token\<close>

lemma next_token_ahead:
  "next_token tokens = Inr (token, rest) \<Longrightarrow> ahead (set (fst tokens)) token rest"
  by (induction tokens rule: next_token.induct) (auto simp: ahead_def)

lemma ahead_mono: "ahead S token rest \<Longrightarrow> S \<subseteq> T \<Longrightarrow> ahead T token rest"
  by (auto simp: ahead_def)

lemma ahead_subset: "ahead S token rest \<Longrightarrow> set (fst rest) \<subseteq> S"
  by (simp add: ahead_def)

lemma run_ahead: "run d c = Inr (tok, node, rest) \<Longrightarrow> call_ahead S c \<Longrightarrow> ahead S tok rest"
proof (induction d arbitrary: c tok node rest)
  case 0
  then show ?case by simp
next
  case (Suc d)
  note IH = Suc.IH
  have nt: "ahead S token ts'" if "next_token ts = Inr (token, ts')" "set (fst ts) \<subseteq> S"
    for ts token ts'
    using next_token_ahead [OF that(1)] that(2) by (rule ahead_mono)
  show ?case
  proof (cases c)
    case (Expr tokens)
    with Suc.prems show ?thesis
      by (auto split: sum.splits prod.splits if_splits dest!: IH)
  next
    case (ExprLoop token left tokens)
    with Suc.prems show ?thesis
      by (auto split: sum.splits prod.splits if_splits dest!: IH dest: ahead_subset)
  next
    case (Term tokens)
    with Suc.prems show ?thesis
      by (auto split: sum.splits prod.splits if_splits dest!: IH)
  next
    case (TermLoop token left tokens)
    with Suc.prems show ?thesis
      by (auto split: sum.splits prod.splits if_splits dest!: IH dest: ahead_subset)
  next
    case (Factor tokens)
    with Suc.prems have sub: "set (fst tokens) \<subseteq> S" by simp
    from Suc.prems(1) Factor obtain token ts' where
      n: "next_token tokens = Inr (token, ts')"
      and r: "(ttype token \<in> {PLUS, MINUS} \<and>
                (\<exists>right. run d (Factor ts') = Inr (tok, right, rest)))
              \<or> (ttype token \<notin> {PLUS, MINUS} \<and> run d (Power ts' token) = Inr (tok, node, rest))"
      by (auto split: sum.splits prod.splits if_splits)
    from nt [OF n sub] have a: "ahead S token ts'" .
    from r show ?thesis
    proof (elim disjE conjE exE)
      fix right
      assume "run d (Factor ts') = Inr (tok, right, rest)"
      from IH [OF this] a show ?thesis by (simp add: ahead_subset)
    next
      assume "run d (Power ts' token) = Inr (tok, node, rest)"
      from IH [OF this] a show ?thesis by simp
    qed
  next
    case (Power tokens token)
    with Suc.prems show ?thesis
      by (auto split: sum.splits prod.splits if_splits dest!: IH)
  next
    case (PowerLoop token left tokens)
    with Suc.prems show ?thesis
      by (auto split: sum.splits prod.splits if_splits dest!: IH dest: ahead_subset)
  next
    case (Atom tokens token)
    with Suc.prems have a: "ahead S token tokens" by simp
    show ?thesis
    proof (cases "ttype token = NUMBER")
      case True
      with Suc.prems(1) Atom have n: "next_token tokens = Inr (tok, rest)"
        by (auto split: sum.splits prod.splits)
      from nt [OF n ahead_subset [OF a]] show ?thesis .
    next
      case False
      with Suc.prems(1) Atom obtain token' result tokens' where
        e: "run d (Expr tokens) = Inr (token', result, tokens')"
        and n: "next_token tokens' = Inr (tok, rest)"
        by (auto split: sum.splits prod.splits if_splits)
      from IH [OF e] a have "ahead S token' tokens'" by (simp add: ahead_subset)
      then have "set (fst tokens') \<subseteq> S" by (rule ahead_subset)
      from nt [OF n this] show ?thesis .
    qed
  qed
qed

lemma lookahead_of_input:
  assumes "expr d (generate_tokens input) = Inr (last_token, node, rest)"
  shows "ahead (set (fst (generate_tokens input))) last_token rest"
  using assms run_ahead [of d "Expr (generate_tokens input)" last_token node rest
      "set (fst (generate_tokens input))"]
  by (simp add: expr_def)

section \<open>What the evaluator raises\<close>

lemma float_truediv_errors: "float_truediv a b = Inl e \<Longrightarrow> e = ZeroDivisionError"
  by (cases a; cases b) (auto split: if_splits)

lemma float_pow_errors: "float_pow a b = Inl e \<Longrightarrow> e \<in> evaluation_errors"
  by (cases a; cases b)
    (auto simp: evaluation_errors_def checked_pow_def split: if_splits pyfloat.splits)

lemma binary_errors:
  assumes "binary f x y = Inl e"
    and "\<And>e. x = Inl e \<Longrightarrow> e \<in> evaluation_errors"
    and "\<And>e. y = Inl e \<Longrightarrow> e \<in> evaluation_errors"
    and "\<And>a b e. f a b = Inl e \<Longrightarrow> e \<in> evaluation_errors"
  shows "e \<in> evaluation_errors"
  using assms by (cases x; cases y) auto

lemma py_errors:
  "py_add a b = Inl e \<Longrightarrow> e \<in> evaluation_errors"
  "py_sub a b = Inl e \<Longrightarrow> e \<in> evaluation_errors"
  "py_mul a b = Inl e \<Longrightarrow> e \<in> evaluation_errors"
  "py_truediv a b = Inl e \<Longrightarrow> e \<in> evaluation_errors"
  "py_pow a b = Inl e \<Longrightarrow> e \<in> evaluation_errors"
  "py_neg a = Inl e \<Longrightarrow> e \<in> evaluation_errors"
  by (cases a; cases b;
      auto simp: evaluation_errors_def map_sum_def split: sum.splits
        dest: float_truediv_errors float_pow_errors [unfolded evaluation_errors_def])+

lemma visit_errors: "visit node = Inl e \<Longrightarrow> e \<in> evaluation_errors"
proof (induction node arbitrary: e)
  case (NumberNode v)
  then show ?case by simp
next
  case (BinaryOpNode left op right)
  from BinaryOpNode.prems show ?case
    by (auto split: if_splits elim!: binary_errors dest: BinaryOpNode.IH py_errors)
next
  case (UnaryOpNode op node)
  from UnaryOpNode.prems show ?case
    by (auto split: if_splits sum.splits dest: UnaryOpNode.IH py_errors)
qed

lemma main_never_exhausts_depth: "snd (main input) \<noteq> Inl DepthExhausted"
proof -
  have v: "visit node \<noteq> Inl DepthExhausted" for node
    using visit_errors [of node DepthExhausted] by (auto simp: evaluation_errors_def)
  show ?thesis
    using parse_depth_enough [of "generate_tokens input"] v
    by (auto simp: main_def Let_def split: sum.splits prod.splits)
qed

section \<open>The claims of the specification\<close>

subsection \<open>Parentheses\<close>

text \<open>
  The parser has a rule for a parenthesized expression, and the evaluator gives such a
  tree the expected value: on the tokens that \<^verbatim>\<open>(1+2)*3\<close> ought to produce, the tree groups
  the sum first and its value is 9.
\<close>

lemma parenthesized_tokens_parse:
  "expr 40
     ([Token LPAREN None, Token NUMBER (Some (Finite 1)), Token PLUS None,
       Token NUMBER (Some (Finite 2)), Token RPAREN None, Token STAR None,
       Token NUMBER (Some (Finite 3))], None) =
   Inr (Token EOF None,
     BinaryOpNode
       (BinaryOpNode (NumberNode (Some (Finite 1))) (Token PLUS None) (NumberNode (Some (Finite 2))))
       (Token STAR None) (NumberNode (Some (Finite 3))),
     ([], None))"
  by (simp add: eval_simps)

lemma parenthesized_tree_value:
  "visit
     (BinaryOpNode
       (BinaryOpNode (NumberNode (Some (Finite 1))) (Token PLUS None) (NumberNode (Some (Finite 2))))
       (Token STAR None) (NumberNode (Some (Finite 3)))) = Inr (Some (Finite 9))"
  by simp

text \<open>
  Claim C1 says that the input \<^verbatim>\<open>(1+2)*3\<close> goes through the lexer, the parser and the
  evaluator and yields 9.0, the lexer emitting LPAREN and RPAREN for the parentheses.
  The lexer has no case for either parenthesis: no routine ever builds a token of type
  LPAREN or RPAREN, the first character of this input is an unrecognized symbol, and the
  program ends with that exception after its prompt.
\<close>

theorem C1_parenthesis_is_unrecognized:
  "generate_tokens ''(1+2)*3'' = ([], Some CHR ''('')
   \<and> main ''(1+2)*3'' =
       ([PrintLine ''Press <Ctrl-D> to Terminate input'', ReadStdin],
        Inl (UnrecognizedSymbol CHR ''(''))"
  by (simp add: main_def eval_simps)

subsection \<open>Division by zero\<close>

text \<open>
  Claim C2 says that evaluating \<^verbatim>\<open>3/0\<close> raises no error and prints plus infinity.
  The program does not end normally with a printed infinity.
\<close>

theorem C2_counterexample:
  "main ''3/0'' \<noteq>
     ([PrintLine ''Press <Ctrl-D> to Terminate input'', ReadStdin, PrintValue (Some PInf)], Inr ())"
  by (simp add: main_def eval_simps)

text \<open>
  Claim C2 as the program behaves: the input \<^verbatim>\<open>3/0\<close> lexes to three tokens and parses
  to a division node with nothing left over; visiting that node raises
  \<^verbatim>\<open>ZeroDivisionError\<close>, Python's float division by zero, and the program ends with that
  exception, having printed its prompt only.
\<close>

theorem C2_division_by_zero_raises:
  "generate_tokens ''3/0'' =
     ([Token NUMBER (Some (Finite 3)), Token SLASH None, Token NUMBER (Some (Finite 0))], None)
   \<and> expr (parse_depth (generate_tokens ''3/0'')) (generate_tokens ''3/0'') =
       Inr (Token EOF None,
         BinaryOpNode (NumberNode (Some (Finite 3))) (Token SLASH None) (NumberNode (Some (Finite 0))),
         ([], None))
   \<and> visit (BinaryOpNode (NumberNode (Some (Finite 3))) (Token SLASH None)
         (NumberNode (Some (Finite 0)))) = Inl ZeroDivisionError
   \<and> main ''3/0'' =
       ([PrintLine ''Press <Ctrl-D> to Terminate input'', ReadStdin], Inl ZeroDivisionError)"
  by (simp add: main_def eval_simps)

subsection \<open>Unrecognized characters\<close>

text \<open>
  Claim C3 says that the lexer fails at every character that is not a digit, whitespace,
  an operator or a parenthesis. It does on \<^verbatim>\<open>3+@\<close>, after the tokens for \<^verbatim>\<open>3\<close> and
  \<^verbatim>\<open>+\<close>. It does not on \<^verbatim>\<open>3@\<close>: the character that ends a run of digits is tested with
  \<open>num\<close> set, so the final \<^verbatim>\<open>elif num is None\<close> lets it pass, and the program prints 3.0.
\<close>

theorem C3_symbol_after_number_is_skipped:
  "generate_tokens ''3@'' = ([Token NUMBER (Some (Finite 3))], None)
   \<and> main ''3@'' =
       ([PrintLine ''Press <Ctrl-D> to Terminate input'', ReadStdin, PrintValue (Some (Finite 3))],
        Inr ())
   \<and> generate_tokens ''3+@'' =
       ([Token NUMBER (Some (Finite 3)), Token PLUS None], Some CHR ''@'')"
  by (simp add: main_def eval_simps)

subsection \<open>Trailing tokens\<close>

text \<open>
  Claim C4: the parser returns its lookahead token with the tree, and \<^verbatim>\<open>main\<close> asserts
  that it is the end of the input. Whenever a token is left after the first complete
  expression of a non-empty input (the lookahead is not the end-of-input token, or tokens
  remain behind it), the program ends with \<^verbatim>\<open>AssertionError\<close>, having printed its prompt
  only; the input \<^verbatim>\<open>1 2\<close> is such a case.
\<close>

theorem C4_trailing_token_fails:
  "(input \<noteq> [] \<and>
    expr (parse_depth (generate_tokens input)) (generate_tokens input)
      = Inr (last_token, node, rest) \<and>
    (ttype last_token \<noteq> EOF \<or> fst rest \<noteq> [])
    \<longrightarrow> main input =
          ([PrintLine ''Press <Ctrl-D> to Terminate input'', ReadStdin], Inl AssertionError))
   \<and> main ''1 2'' =
       ([PrintLine ''Press <Ctrl-D> to Terminate input'', ReadStdin], Inl AssertionError)"
proof (intro conjI impI)
  assume a: "input \<noteq> [] \<and>
    expr (parse_depth (generate_tokens input)) (generate_tokens input)
      = Inr (last_token, node, rest) \<and>
    (ttype last_token \<noteq> EOF \<or> fst rest \<noteq> [])"
  then have p: "expr (parse_depth (generate_tokens input)) (generate_tokens input)
      = Inr (last_token, node, rest)" by simp
  from lookahead_of_input [OF p]
  have "ahead (set (fst (generate_tokens input))) last_token rest" .
  with a have "ttype last_token \<noteq> EOF"
    by (auto simp: ahead_def dest: generate_tokens_not_EOF)
  with a p show "main input =
      ([PrintLine ''Press <Ctrl-D> to Terminate input'', ReadStdin], Inl AssertionError)"
    by (simp add: main_def)
next
  show "main ''1 2'' =
      ([PrintLine ''Press <Ctrl-D> to Terminate input'', ReadStdin], Inl AssertionError)"
    by (simp add: main_def eval_simps)
qed

text \<open>The same on \<^verbatim>\<open>1+2 3\<close>, where the number 3 is left over.\<close>

theorem C4_trailing_token_fails_witness:
  "expr (parse_depth (generate_tokens ''1+2 3'')) (generate_tokens ''1+2 3'') =
     Inr (Token NUMBER (Some (Finite 3)),
       BinaryOpNode (NumberNode (Some (Finite 1))) (Token PLUS None) (NumberNode (Some (Finite 2))),
       ([], None))
   \<and> main ''1+2 3'' =
       ([PrintLine ''Press <Ctrl-D> to Terminate input'', ReadStdin], Inl AssertionError)"
proof -
  have p: "expr (parse_depth (generate_tokens ''1+2 3'')) (generate_tokens ''1+2 3'') =
     Inr (Token NUMBER (Some (Finite 3)),
       BinaryOpNode (NumberNode (Some (Finite 1))) (Token PLUS None) (NumberNode (Some (Finite 2))),
       ([], None))"
    by (simp add: eval_simps)
  with C4_trailing_token_fails [of "''1+2 3''" "Token NUMBER (Some (Finite 3))"
      "BinaryOpNode (NumberNode (Some (Finite 1))) (Token PLUS None) (NumberNode (Some (Finite 2)))"
      "([], None)"]
  show ?thesis by simp
qed

subsection \<open>Precedence and associativity\<close>

text \<open>
  Claim C5: the caret is right-associative. The input \<^verbatim>\<open>2^3^2\<close> parses to the tree of
  \<open>2^(3^2)\<close> and the program prints 512.0; the tree of \<open>(2^3)^2\<close> would have the value
  64.0.
\<close>

theorem C5_caret_is_right_associative:
  "expr (parse_depth (generate_tokens ''2^3^2'')) (generate_tokens ''2^3^2'') =
     Inr (Token EOF None,
       BinaryOpNode (NumberNode (Some (Finite 2))) (Token CARET None)
         (BinaryOpNode (NumberNode (Some (Finite 3))) (Token CARET None)
            (NumberNode (Some (Finite 2)))),
       ([], None))
   \<and> main ''2^3^2'' =
       ([PrintLine ''Press <Ctrl-D> to Terminate input'', ReadStdin,
         PrintValue (Some (Finite 512))], Inr ())
   \<and> visit
       (BinaryOpNode
         (BinaryOpNode (NumberNode (Some (Finite 2))) (Token CARET None)
            (NumberNode (Some (Finite 3))))
         (Token CARET None) (NumberNode (Some (Finite 2)))) = Inr (Some (Finite 64))"
  by (simp add: main_def eval_simps)

text \<open>
  Claim C6: a leading unary minus binds looser than the caret. The input \<^verbatim>\<open>-2^2\<close>
  parses to the negation of the whole power, and the program prints -4.0.
\<close>

theorem C6_unary_minus_wraps_power:
  "expr (parse_depth (generate_tokens ''-2^2'')) (generate_tokens ''-2^2'') =
     Inr (Token EOF None,
       UnaryOpNode (Token MINUS None)
         (BinaryOpNode (NumberNode (Some (Finite 2))) (Token CARET None)
            (NumberNode (Some (Finite 2)))),
       ([], None))
   \<and> main ''-2^2'' =
       ([PrintLine ''Press <Ctrl-D> to Terminate input'', ReadStdin,
         PrintValue (Some (Finite (- 4)))], Inr ())"
  by (simp add: main_def eval_simps)

subsection \<open>The prompt and the empty input\<close>

text \<open>
  Claim C8 says that on an empty input the program produces no output. It prints its
  prompt.
\<close>

theorem C8_counterexample: "printed (fst (main '''')) \<noteq> []"
  by (simp add: main_def printed_def)

text \<open>
  Claim C8 as the program behaves: on an empty input the program prints the prompt line,
  reads the input, and returns normally without lexing, parsing or evaluating anything;
  the prompt is its whole output.
\<close>

theorem C8_empty_input_prints_only_the_prompt:
  "main '''' = ([PrintLine ''Press <Ctrl-D> to Terminate input'', ReadStdin], Inr ())
   \<and> printed (fst (main '''')) = [PrintLine ''Press <Ctrl-D> to Terminate input'']"
  by (simp add: main_def printed_def)

text \<open>
  Claim C10: on every input, the empty one included, the first thing \<^verbatim>\<open>main\<close> does is
  print the prompt line, and only then does it read standard input; so the first printed
  line is the prompt, and the output is never the result line alone.
\<close>

theorem C10_prompt_is_always_printed_first:
  "take 2 (fst (main stdin)) = [PrintLine ''Press <Ctrl-D> to Terminate input'', ReadStdin]
   \<and> hd (printed (fst (main stdin))) = PrintLine ''Press <Ctrl-D> to Terminate input''
   \<and> printed (fst (main stdin)) \<noteq> [PrintValue v]"
  by (simp add: main_def printed_def Let_def split: sum.split prod.split)

subsection \<open>Runs of digits\<close>

text \<open>
  Claim C7 says that an input of digits only lexes to one number token whose payload
  equals the numeric value of the run. The payload is a double, and the run
  \<^verbatim>\<open>9007199254740993\<close> (\<open>2 ^ 53 + 1\<close>) has the payload 9007199254740992.0.
\<close>

theorem C7_counterexample:
  "decimal_value ''9007199254740993'' = 9007199254740993
   \<and> generate_tokens ''9007199254740993'' =
       ([Token NUMBER (Some (Finite 9007199254740992))], None)"
  by (simp add: lex_simps round_double_above_2_53)

text \<open>
  Claim C7 as the program behaves: a non-empty input of digits only lexes to exactly one
  token, a number, whose payload is \<^verbatim>\<open>float\<close> of the whole run: the double nearest to
  the value of the run, which is that value whenever it is below \<open>2 ^ 53\<close>.
\<close>

theorem C7_digits_lex_to_one_number:
  "input \<noteq> [] \<and> set input \<subseteq> set digits \<longrightarrow>
     generate_tokens input = ([Token NUMBER (Some (float_of_digits input))], None)
     \<and> float_of_digits input = round_double (real (decimal_value input))
     \<and> (decimal_value input < 2 ^ 53 \<longrightarrow>
          float_of_digits input = Finite (real (decimal_value input)))"
proof (intro impI conjI)
  assume "input \<noteq> [] \<and> set input \<subseteq> set digits"
  then show "generate_tokens input = ([Token NUMBER (Some (float_of_digits input))], None)"
    by (simp add: generate_tokens_digits)
next
  show "float_of_digits input = round_double (real (decimal_value input))"
    by (simp add: float_of_digits_def)
next
  assume "decimal_value input < 2 ^ 53"
  then have "\<bar>int (decimal_value input)\<bar> < 2 ^ 53"
    by (metis abs_of_nat of_nat_less_numeral_power_cancel_iff)
  from round_double_of_int [OF this]
  show "float_of_digits input = Finite (real (decimal_value input))"
    by (simp add: float_of_digits_def)
qed

text \<open>The run \<^verbatim>\<open>0042\<close> is the one number 42.0.\<close>

theorem C7_digits_lex_to_one_number_witness:
  "''0042'' \<noteq> [] \<and> set ''0042'' \<subseteq> set digits
   \<and> decimal_value ''0042'' = 42
   \<and> generate_tokens ''0042'' = ([Token NUMBER (Some (float_of_digits ''0042''))], None)
   \<and> float_of_digits ''0042'' = Finite 42"
proof -
  have h: "''0042'' \<noteq> [] \<and> set ''0042'' \<subseteq> set digits" by (simp add: digits_def)
  have d: "decimal_value ''0042'' = 42" by (simp add: decimal_value_def digit_value_def)
  from h d C7_digits_lex_to_one_number [of "''0042''"] show ?thesis
    by (simp del: generate_tokens.simps)
qed

subsection \<open>Well-formed trees and tokens\<close>

text \<open>
  Claim C9: in every tree the parser returns, each binary node has one of the five
  operators and each unary node a plus or a minus; and every token the lexer yields
  carries a payload exactly when it is a number.
\<close>

theorem C9_trees_and_tokens_are_well_formed:
  "(expr d tokens = Inr (last_token, node, rest) \<longrightarrow> valid_node node)
   \<and> (t \<in> set (fst (generate_tokens input)) \<longrightarrow> valid_token t)"
proof (intro conjI impI)
  assume "expr d tokens = Inr (last_token, node, rest)"
  then show "valid_node node"
    using run_valid_node [of d "Expr tokens" last_token node rest] by (simp add: expr_def)
next
  assume "t \<in> set (fst (generate_tokens input))"
  then show "valid_token t"
    by (auto simp: valid_token_def operator_tokens_def dest!: generate_tokens_shape)
qed

text \<open>The tree and two of the tokens of \<^verbatim>\<open>-2^2*3\<close>.\<close>

theorem C9_trees_and_tokens_are_well_formed_witness:
  "expr 25 (generate_tokens ''-2^2*3'') =
     Inr (Token EOF None,
       BinaryOpNode
         (UnaryOpNode (Token MINUS None)
           (BinaryOpNode (NumberNode (Some (Finite 2))) (Token CARET None)
              (NumberNode (Some (Finite 2)))))
         (Token STAR None) (NumberNode (Some (Finite 3))),
       ([], None))
   \<and> valid_node
       (BinaryOpNode
         (UnaryOpNode (Token MINUS None)
           (BinaryOpNode (NumberNode (Some (Finite 2))) (Token CARET None)
              (NumberNode (Some (Finite 2)))))
         (Token STAR None) (NumberNode (Some (Finite 3))))
   \<and> Token NUMBER (Some (Finite 3)) \<in> set (fst (generate_tokens ''-2^2*3''))
   \<and> valid_token (Token NUMBER (Some (Finite 3)))
   \<and> Token STAR None \<in> set (fst (generate_tokens ''-2^2*3''))
   \<and> valid_token (Token STAR None)"
proof -
  have p: "expr 25 (generate_tokens ''-2^2*3'') =
     Inr (Token EOF None,
       BinaryOpNode
         (UnaryOpNode (Token MINUS None)
           (BinaryOpNode (NumberNode (Some (Finite 2))) (Token CARET None)
              (NumberNode (Some (Finite 2)))))
         (Token STAR None) (NumberNode (Some (Finite 3))),
       ([], None))"
    by (simp add: eval_simps)
  have n: "Token NUMBER (Some (Finite 3)) \<in> set (fst (generate_tokens ''-2^2*3''))"
    by (simp add: lex_simps)
  have s: "Token STAR None \<in> set (fst (generate_tokens ''-2^2*3''))"
    by (simp add: lex_simps)
  from p n s
    C9_trees_and_tokens_are_well_formed [of 25 "generate_tokens ''-2^2*3''" "Token EOF None"
      "BinaryOpNode
         (UnaryOpNode (Token MINUS None)
           (BinaryOpNode (NumberNode (Some (Finite 2))) (Token CARET None)
              (NumberNode (Some (Finite 2)))))
         (Token STAR None) (NumberNode (Some (Finite 3)))" "([], None)"
      "Token NUMBER (Some (Finite 3))" "''-2^2*3''"]
    C9_trees_and_tokens_are_well_formed [of 25 "generate_tokens ''-2^2*3''" "Token EOF None"
      "BinaryOpNode
         (UnaryOpNode (Token MINUS None)
           (BinaryOpNode (NumberNode (Some (Finite 2))) (Token CARET None)
              (NumberNode (Some (Finite 2)))))
         (Token STAR None) (NumberNode (Some (Finite 3)))" "([], None)"
      "Token STAR None" "''-2^2*3''"]
  show ?thesis by simp
qed

end
